theory Spec2Isabelle
  imports Complex_Main
begin

section \<open>JavaScript values\<close>

text \<open>
  A JavaScript number is an IEEE double. The finite doubles are rationals; the two zeros
  are both \<open>Finite 0\<close>, since nothing in \<open>Expressions.ts\<close> tells them apart
  (\<open>!!x\<close> is false for both and \<open>===\<close> equates them).
\<close>

datatype number = Finite rat | PosInfinity | NegInfinity | NaN

text \<open>
  The values a literal's \<open>typedValue: T\<close> takes in the classes of the file:
  \<open>undefined\<close>, a number, a boolean, a string, or a \<open>Date\<close> object (held by its
  time value).
\<close>

datatype jsval =
    JSUndefined
  | JSNumber number
  | JSBoolean bool
  | JSString string
  | JSDate number


text \<open>\<open>RDF.NamedNode\<close>: the code reads only its \<open>value\<close>.\<close>

datatype namedNode = NamedNode (nn_value: string)

section \<open>Errors\<close>

text \<open>
  \<open>TypeError\<close> is thrown by \<open>Term.coerceEBV\<close> on purpose
  (\<open>"Cannot coerce this term to EBV."\<close>) and by the runtime when a property of
  \<open>undefined\<close> is read; the cause keeps the two apart and names the property.
\<close>

datatype typeErrorCause = CannotCoerceEBV | PropertyOfUndefined string

section \<open>Terms\<close>

text \<open>The classes of the \<open>Literal\<close> hierarchy; \<open>coerceEBV\<close> dispatches on them.\<close>

datatype literalClass =
    Literal
  | NumericLiteral
  | BooleanLiteral
  | DateTimeLiteral
  | PlainLiteral
  | StringLiteral
  | NonLexicalLiteral

text \<open>
  The fields of a \<open>Literal<T>\<close> object. \<open>strValue\<close>, \<open>dataType\<close> and \<open>language\<close>
  are optional constructor parameters: \<open>None\<close> is \<open>undefined\<close>.
  \<open>expressionType\<close> and \<open>termType\<close> are the constants \<open>'term'\<close> and \<open>'literal'\<close>.
\<close>

record literalTerm =
  cls :: literalClass
  typedValue :: jsval
  strValue :: "string option"
  dataType :: "namedNode option"
  language :: "string option"
  category :: string

text \<open>
  An \<open>ITermExpression\<close>: a literal, or a term of another kind, which has no
  \<open>category\<close> property and is known to the operators by its \<open>termType\<close> tag only.
\<close>

datatype termExpression = Lit literalTerm | NonLiteral string

text \<open>
  \<open>a.category || a.termType\<close>: the category when it is a non-empty string, the
  \<open>termType\<close> otherwise.
\<close>

fun argType :: "termExpression \<Rightarrow> string" where
  "argType (Lit l) = (if category l \<noteq> [] then category l else ''literal'')"
| "argType (NonLiteral tt) = tt"

text \<open>
  The errors of the file. \<open>InvalidArity\<close> and \<open>InvalidArgumentTypes\<close> carry the
  arguments and the operator name they are constructed with; \<open>'e\<close> is the type of
  the unevaluated argument expressions (\<open>IExpression\<close>), of which the operators
  read the number only.
\<close>

datatype 'e error =
    InvalidArity "'e list" string
  | InvalidArgumentTypes "termExpression list" string
  | TypeError typeErrorCause

section \<open>Literal construction\<close>

text \<open>
  The constructor of \<open>Literal\<close>, which the subclasses but \<open>NonLexicalLiteral\<close>
  inherit as it is; \<open>c\<close> is the class instantiated.
  \<open>categorize\<close> of \<open>util/Consts\<close> is not in the file: it is the parameter
  \<open>categorize\<close>, a function from a datatype identifier to a category.
  \<open>dataType.value\<close> is read with no check: an absent datatype is a \<open>TypeError\<close>.
\<close>

definition Literal_constructor ::
  "(string \<Rightarrow> string) \<Rightarrow> literalClass \<Rightarrow> jsval \<Rightarrow> string option \<Rightarrow>
   namedNode option \<Rightarrow> string option \<Rightarrow> 'e error + literalTerm" where
  "Literal_constructor categorize c tv sv dt lang =
     (case dt of
        None \<Rightarrow> Inl (TypeError (PropertyOfUndefined ''value''))
      | Some d \<Rightarrow>
          Inr \<lparr>cls = c, typedValue = tv, strValue = sv, dataType = dt, language = lang,
               category = categorize (nn_value d)\<rparr>)"

text \<open>
  The constructor of \<open>NonLexicalLiteral\<close>: the constructor of \<open>Literal\<close>, then the
  two assignments.
\<close>

definition NonLexicalLiteral_constructor ::
  "(string \<Rightarrow> string) \<Rightarrow> jsval \<Rightarrow> string option \<Rightarrow> namedNode option \<Rightarrow>
   string option \<Rightarrow> 'e error + literalTerm" where
  "NonLexicalLiteral_constructor categorize tv sv dt lang =
     (case Literal_constructor categorize NonLexicalLiteral tv sv dt lang of
        Inl e \<Rightarrow> Inl e
      | Inr l \<Rightarrow> Inr (l\<lparr>typedValue := JSUndefined, category := ''untyped''\<rparr>))"

section \<open>Effective boolean value\<close>



section \<open>Wire form\<close>

text \<open>
  \<open>v.toString()\<close>. The decimal form of a number and the text of a date are the
  runtime's, taken as the parameters \<open>numStr\<close> and \<open>dateStr\<close>; \<open>undefined\<close> has no
  \<open>toString\<close>.
\<close>

fun toString ::
  "(number \<Rightarrow> string) \<Rightarrow> (number \<Rightarrow> string) \<Rightarrow> jsval \<Rightarrow> 'e error + string" where
  "toString numStr dateStr JSUndefined = Inl (TypeError (PropertyOfUndefined ''toString''))"
| "toString numStr dateStr (JSNumber n) = Inr (numStr n)"
| "toString numStr dateStr (JSBoolean b) = Inr (if b then ''true'' else ''false'')"
| "toString numStr dateStr (JSString s) = Inr s"
| "toString numStr dateStr (JSDate d) = Inr (dateStr d)"

text \<open>
  The second argument of \<open>RDFDM.literal\<close>: a language tag (a string), a datatype (a
  named node), or \<open>undefined\<close>.
\<close>

datatype languageOrDatatype = Language string | Datatype namedNode | NoLanguageOrDatatype

text \<open>
  The term \<open>RDFDM.literal(value, languageOrDatatype)\<close> of the library
  \<open>rdf-data-model\<close>, held as the call's two arguments.
\<close>

datatype rdfTerm = RDFDM_literal (lexical: string) (languageOrDatatype: languageOrDatatype)

text \<open>\<open>this.strValue || this.typedValue.toString()\<close>\<close>

definition toRDF_value ::
  "(number \<Rightarrow> string) \<Rightarrow> (number \<Rightarrow> string) \<Rightarrow> literalTerm \<Rightarrow> 'e error + string" where
  "toRDF_value numStr dateStr l =
     (case strValue l of
        Some s \<Rightarrow> if s \<noteq> [] then Inr s else toString numStr dateStr (typedValue l)
      | None \<Rightarrow> toString numStr dateStr (typedValue l))"

text \<open>\<open>this.language || this.dataType\<close>\<close>

definition toRDF_languageOrDatatype :: "literalTerm \<Rightarrow> languageOrDatatype" where
  "toRDF_languageOrDatatype l =
     (let dt = (case dataType l of None \<Rightarrow> NoLanguageOrDatatype | Some d \<Rightarrow> Datatype d)
      in case language l of
           Some g \<Rightarrow> if g \<noteq> [] then Language g else dt
         | None \<Rightarrow> dt)"

definition toRDF ::
  "(number \<Rightarrow> string) \<Rightarrow> (number \<Rightarrow> string) \<Rightarrow> literalTerm \<Rightarrow> 'e error + rdfTerm" where
  "toRDF numStr dateStr l =
     (case toRDF_value numStr dateStr l of
        Inl e \<Rightarrow> Inl e
      | Inr v \<Rightarrow> Inr (RDFDM_literal v (toRDF_languageOrDatatype l)))"

section \<open>Operators\<close>

text \<open>\<open>Variable\<close>, the one class of unevaluated expression the file defines.\<close>

datatype Variable = Variable (name: string)

type_synonym 'e SimpleEvaluator = "termExpression list \<Rightarrow> 'e error + termExpression"

text \<open>
  \<open>OverloadMap\<close>: an Immutable.js \<open>Map\<close> whose keys are \<open>List\<close>s of argument
  types, compared by value.
\<close>

type_synonym 'e OverloadMap = "string list \<rightharpoonup> 'e SimpleEvaluator"

text \<open>The fields both operator classes declare.\<close>

record 'e operatorFields =
  operator :: string
  arity :: number
  args :: "'e list"

record 'e SimpleOperator = "'e operatorFields" +
  types :: "string list"
  apply_fn :: "'e SimpleEvaluator"

text \<open>
  \<open>OverloadedOperator\<close> has the public field \<open>overloadMap\<close>, which the constructor's
  parameter property assigns, and the private field \<open>_overloadMap\<close>, which is
  declared with no initialiser and assigned nowhere: \<open>None\<close> is \<open>undefined\<close>.
\<close>

record 'e OverloadedOperator = "'e operatorFields" +
  overloadMap :: "'e OverloadMap"
  priv_overloadMap :: "'e OverloadMap option"

text \<open>\<open>args.length !== this.arity\<close>\<close>

definition length_differs :: "'e list \<Rightarrow> number \<Rightarrow> bool" where
  "length_differs as ar = (Finite (of_nat (length as)) \<noteq> ar)"

definition SimpleOperator_constructor ::
  "string \<Rightarrow> number \<Rightarrow> 'e list \<Rightarrow> string list \<Rightarrow> 'e SimpleEvaluator \<Rightarrow>
   'e error + 'e SimpleOperator" where
  "SimpleOperator_constructor op ar as ts f =
     (if length_differs as ar then Inl (InvalidArity as op)
      else Inr \<lparr>operator = op, arity = ar, args = as, types = ts, apply_fn = f\<rparr>)"

text \<open>\<open>_isValidTypes\<close>: \<open>_.isEqual\<close> of two arrays of strings.\<close>

definition isValidTypes :: "'e SimpleOperator \<Rightarrow> termExpression list \<Rightarrow> bool" where
  "isValidTypes opr as = (let argTypes = map argType as in types opr = argTypes)"

definition SimpleOperator_apply ::
  "'e SimpleOperator \<Rightarrow> termExpression list \<Rightarrow> 'e error + termExpression" where
  "SimpleOperator_apply opr as =
     (if \<not> isValidTypes opr as then Inl (InvalidArgumentTypes as (operator opr))
      else apply_fn opr as)"

definition OverloadedOperator_constructor ::
  "string \<Rightarrow> number \<Rightarrow> 'e list \<Rightarrow> 'e OverloadMap \<Rightarrow> 'e error + 'e OverloadedOperator" where
  "OverloadedOperator_constructor op ar as m =
     (if length_differs as ar then Inl (InvalidArity as op)
      else Inr \<lparr>operator = op, arity = ar, args = as, overloadMap = m,
                priv_overloadMap = None\<rparr>)"

text \<open>
  \<open>_monomorph\<close>: \<open>this._overloadMap.get(argTypes)\<close>, which reads \<open>get\<close> of
  \<open>undefined\<close> when the private field was never assigned. The result of \<open>get\<close> is
  \<open>undefined\<close> (\<open>None\<close>) for a key the map does not hold.
\<close>

definition monomorph ::
  "'e OverloadedOperator \<Rightarrow> termExpression list \<Rightarrow> 'e error + 'e SimpleEvaluator option" where
  "monomorph opr as =
     (let argTypes = map argType as
      in case priv_overloadMap opr of
           None \<Rightarrow> Inl (TypeError (PropertyOfUndefined ''get''))
         | Some m \<Rightarrow> Inr (m argTypes))"

definition OverloadedOperator_apply ::
  "'e OverloadedOperator \<Rightarrow> termExpression list \<Rightarrow> 'e error + termExpression" where
  "OverloadedOperator_apply opr as =
     (case monomorph opr as of
        Inl e \<Rightarrow> Inl e
      | Inr None \<Rightarrow> Inl (InvalidArgumentTypes as (operator opr))
      | Inr (Some func) \<Rightarrow> func as)"

section \<open>Argument types\<close>

lemma argType_literal: "category l \<noteq> [] \<Longrightarrow> argType (Lit l) = category l"
  by simp

lemma argType_nonliteral: "argType (NonLiteral tt) = tt"
  by simp

section \<open>Operator construction\<close>

text \<open>
  C5. Constructing a \<open>SimpleOperator\<close> or an \<open>OverloadedOperator\<close> with a number
  of argument expressions that differs from the declared arity fails with
  \<open>InvalidArity\<close>, whatever the computation or the overload map is (neither is
  called or read); with a number equal to the arity it returns the operator.
\<close>

theorem operator_constructor_arity:
  "(ar \<noteq> Finite (of_nat (length as)) \<longrightarrow>
      SimpleOperator_constructor op ar as ts f = Inl (InvalidArity as op) \<and>
      OverloadedOperator_constructor op ar as m = Inl (InvalidArity as op)) \<and>
   (ar = Finite (of_nat (length as)) \<longrightarrow>
      SimpleOperator_constructor op ar as ts f =
        Inr \<lparr>operator = op, arity = ar, args = as, types = ts, apply_fn = f\<rparr> \<and>
      OverloadedOperator_constructor op ar as m =
        Inr \<lparr>operator = op, arity = ar, args = as, overloadMap = m,
             priv_overloadMap = None\<rparr>)"
  by (auto simp: SimpleOperator_constructor_def OverloadedOperator_constructor_def
      length_differs_def)

theorem operator_constructor_arity_witness:
  "Finite 0 \<noteq> Finite (of_nat (length [Variable ''x''])) \<and>
   SimpleOperator_constructor ''BNODE'' (Finite 0) [Variable ''x''] []
       (\<lambda>as. Inr (NonLiteral ''variable'')) =
     Inl (InvalidArity [Variable ''x''] ''BNODE'') \<and>
   OverloadedOperator_constructor ''BNODE'' (Finite 0) [Variable ''x''] Map.empty =
     Inl (InvalidArity [Variable ''x''] ''BNODE'') \<and>
   Finite 1 = Finite (of_nat (length [Variable ''x''])) \<and>
   SimpleOperator_constructor ''not'' (Finite 1) [Variable ''x''] [''boolean'']
       (\<lambda>as. Inr (hd as)) =
     Inr \<lparr>operator = ''not'', arity = Finite 1, args = [Variable ''x''],
          types = [''boolean''], apply_fn = (\<lambda>as. Inr (hd as))\<rparr> \<and>
   OverloadedOperator_constructor ''not'' (Finite 1) [Variable ''x''] Map.empty =
     Inr \<lparr>operator = ''not'', arity = Finite 1, args = [Variable ''x''],
          overloadMap = Map.empty, priv_overloadMap = None\<rparr>"
  using
    operator_constructor_arity [where ar = "Finite 0" and as = "[Variable ''x'']"
      and op = "''BNODE''" and ts = "[]" and f = "\<lambda>as. Inr (NonLiteral ''variable'')"
      and m = Map.empty]
    operator_constructor_arity [where ar = "Finite 1" and as = "[Variable ''x'']"
      and op = "''not''" and ts = "[''boolean'']" and f = "\<lambda>as. Inr (hd as)"
      and m = Map.empty]
  by simp

section \<open>Application of a fixed-signature operator\<close>

text \<open>
  C2. \<open>SimpleOperator.apply\<close> fails with \<open>InvalidArgumentTypes\<close> when the list of
  the evaluated arguments' types (the category of each, or its \<open>termType\<close> when it
  has none) is not the declared signature; when it is, the result is the result of the
  supplied computation on the same arguments, unchanged, so an
  \<open>InvalidArgumentTypes\<close> can then only be one the computation raised itself.
\<close>

theorem SimpleOperator_apply_signature:
  "(map argType as \<noteq> types opr \<longrightarrow>
      SimpleOperator_apply opr as = Inl (InvalidArgumentTypes as (operator opr))) \<and>
   (map argType as = types opr \<longrightarrow>
      SimpleOperator_apply opr as = apply_fn opr as \<and>
      (\<forall>t. apply_fn opr as = Inr t \<longrightarrow> SimpleOperator_apply opr as = Inr t))"
  by (auto simp: SimpleOperator_apply_def isValidTypes_def)

theorem SimpleOperator_apply_signature_witness:
  "map argType [Lit \<lparr>cls = StringLiteral, typedValue = JSString ''a'', strValue = Some ''a'',
        dataType = Some (NamedNode ''http://www.w3.org/2001/XMLSchema#string''),
        language = None, category = ''string''\<rparr>] \<noteq> [''boolean''] \<and>
   SimpleOperator_apply
       \<lparr>operator = ''not'', arity = Finite 1, args = [Variable ''x''],
        types = [''boolean''], apply_fn = (\<lambda>as. Inr (hd as))\<rparr>
       [Lit \<lparr>cls = StringLiteral, typedValue = JSString ''a'', strValue = Some ''a'',
        dataType = Some (NamedNode ''http://www.w3.org/2001/XMLSchema#string''),
        language = None, category = ''string''\<rparr>] =
     Inl (InvalidArgumentTypes
       [Lit \<lparr>cls = StringLiteral, typedValue = JSString ''a'', strValue = Some ''a'',
        dataType = Some (NamedNode ''http://www.w3.org/2001/XMLSchema#string''),
        language = None, category = ''string''\<rparr>] ''not'') \<and>
   map argType [Lit \<lparr>cls = BooleanLiteral, typedValue = JSBoolean True,
        strValue = Some ''true'',
        dataType = Some (NamedNode ''http://www.w3.org/2001/XMLSchema#boolean''),
        language = None, category = ''boolean''\<rparr>] = [''boolean''] \<and>
   SimpleOperator_apply
       \<lparr>operator = ''not'', arity = Finite 1, args = [Variable ''x''],
        types = [''boolean''], apply_fn = (\<lambda>as. Inr (hd as))\<rparr>
       [Lit \<lparr>cls = BooleanLiteral, typedValue = JSBoolean True, strValue = Some ''true'',
        dataType = Some (NamedNode ''http://www.w3.org/2001/XMLSchema#boolean''),
        language = None, category = ''boolean''\<rparr>] =
     Inr (Lit \<lparr>cls = BooleanLiteral, typedValue = JSBoolean True, strValue = Some ''true'',
        dataType = Some (NamedNode ''http://www.w3.org/2001/XMLSchema#boolean''),
        language = None, category = ''boolean''\<rparr>)"
  using
    SimpleOperator_apply_signature [where
      opr = "\<lparr>operator = ''not'', arity = Finite 1, args = [Variable ''x''],
        types = [''boolean''], apply_fn = (\<lambda>as. Inr (hd as))\<rparr>" and
      as = "[Lit \<lparr>cls = StringLiteral, typedValue = JSString ''a'', strValue = Some ''a'',
        dataType = Some (NamedNode ''http://www.w3.org/2001/XMLSchema#string''),
        language = None, category = ''string''\<rparr>]"]
    SimpleOperator_apply_signature [where
      opr = "\<lparr>operator = ''not'', arity = Finite 1, args = [Variable ''x''],
        types = [''boolean''], apply_fn = (\<lambda>as. Inr (hd as))\<rparr>" and
      as = "[Lit \<lparr>cls = BooleanLiteral, typedValue = JSBoolean True,
        strValue = Some ''true'',
        dataType = Some (NamedNode ''http://www.w3.org/2001/XMLSchema#boolean''),
        language = None, category = ''boolean''\<rparr>]"]
  by simp

section \<open>Literals\<close>

text \<open>
  C6, as the code has it. Constructing a literal of any class from any typed value,
  lexical form and language, with a datatype present, returns the literal: the four
  values are stored as given, the lexical form is compared with nothing, and the
  category is \<open>categorize\<close> of the datatype's identifier. Construction returns
  exactly when the datatype is present.
\<close>

theorem Literal_constructor_succeeds:
  "Literal_constructor categorize c tv sv (Some d) lang =
     Inr \<lparr>cls = c, typedValue = tv, strValue = sv, dataType = Some d, language = lang,
          category = categorize (nn_value d)\<rparr> \<and>
   (\<exists>l. Literal_constructor categorize c tv sv dt lang = Inr l) = (dt \<noteq> None)"
  by (cases dt) (simp_all add: Literal_constructor_def)

text \<open>
  C6 as stated fails: with the datatype absent, \<open>new Literal(5, "5")\<close> reads
  \<open>value\<close> of \<open>undefined\<close>, whatever \<open>categorize\<close> is.
\<close>

theorem Literal_constructor_absent_datatype_counterexample:
  "\<forall>categorize.
     Literal_constructor categorize Literal (JSNumber (Finite 5)) (Some ''5'') None None =
       (Inl (TypeError (PropertyOfUndefined ''value'')) :: Variable error + literalTerm)"
  by (simp add: Literal_constructor_def)

text \<open>
  C4. A \<open>NonLexicalLiteral\<close> that construction returns has category \<open>'untyped'\<close>
  and the typed value \<open>undefined\<close>, so that the operators see the argument type
  \<open>'untyped'\<close>; and construction returns one for every typed value, lexical form
  and language and every supplied datatype, whatever \<open>categorize\<close> makes of the
  datatype. No function of the file returns a changed literal.
\<close>

theorem NonLexicalLiteral_untyped:
  "(NonLexicalLiteral_constructor categorize tv sv dt lang = Inr l \<longrightarrow>
      category l = ''untyped'' \<and> typedValue l = JSUndefined \<and>
      cls l = NonLexicalLiteral \<and> argType (Lit l) = ''untyped'') \<and>
   NonLexicalLiteral_constructor categorize tv sv (Some d) lang =
     Inr \<lparr>cls = NonLexicalLiteral, typedValue = JSUndefined, strValue = sv,
          dataType = Some d, language = lang, category = ''untyped''\<rparr>"
  by (cases dt)
    (auto simp: NonLexicalLiteral_constructor_def Literal_constructor_def)

theorem NonLexicalLiteral_untyped_witness:
  "NonLexicalLiteral_constructor (\<lambda>d. ''integer'') (JSNumber NaN) (Some ''abc'')
       (Some (NamedNode ''http://www.w3.org/2001/XMLSchema#integer'')) None =
     (Inr \<lparr>cls = NonLexicalLiteral, typedValue = JSUndefined, strValue = Some ''abc'',
          dataType = Some (NamedNode ''http://www.w3.org/2001/XMLSchema#integer''),
          language = None, category = ''untyped''\<rparr> :: Variable error + literalTerm) \<and>
   category \<lparr>cls = NonLexicalLiteral, typedValue = JSUndefined, strValue = Some ''abc'',
          dataType = Some (NamedNode ''http://www.w3.org/2001/XMLSchema#integer''),
          language = None, category = ''untyped''\<rparr> = ''untyped'' \<and>
   typedValue \<lparr>cls = NonLexicalLiteral, typedValue = JSUndefined, strValue = Some ''abc'',
          dataType = Some (NamedNode ''http://www.w3.org/2001/XMLSchema#integer''),
          language = None, category = ''untyped''\<rparr> = JSUndefined"
  using NonLexicalLiteral_untyped [where categorize = "\<lambda>d. ''integer''"
      and tv = "JSNumber NaN" and sv = "Some ''abc''"
      and dt = "Some (NamedNode ''http://www.w3.org/2001/XMLSchema#integer'')"
      and d = "NamedNode ''http://www.w3.org/2001/XMLSchema#integer''"
      and lang = None
      and l = "\<lparr>cls = NonLexicalLiteral, typedValue = JSUndefined, strValue = Some ''abc'',
          dataType = Some (NamedNode ''http://www.w3.org/2001/XMLSchema#integer''),
          language = None, category = ''untyped''\<rparr>"]
  by simp

section \<open>Effective boolean value of a literal\<close>




section \<open>Wire form of a literal\<close>

text \<open>
  C7, as the code has it. When the lexical form is present and non-empty, \<open>toRDF\<close>
  returns a term whose lexical value is that form; when it is absent and the typed
  value is not \<open>undefined\<close>, the lexical value is the typed value's canonical string
  form, its \<open>toString()\<close>. The language tag, when present and non-empty, is passed
  through unchanged, alone; otherwise the datatype is passed through unchanged. A
  \<open>NonLexicalLiteral\<close> built from the lexical form \<open>"abc"\<close> renders \<open>"abc"\<close>.
  Nothing is said of a literal whose lexical form is the empty string.
\<close>

theorem toRDF_wire_form:
  "(strValue l = Some s \<and> s \<noteq> [] \<longrightarrow>
      toRDF numStr dateStr l =
        (Inr (RDFDM_literal s (toRDF_languageOrDatatype l)) :: 'e error + rdfTerm)) \<and>
   (strValue l = None \<and> typedValue l \<noteq> JSUndefined \<longrightarrow>
      (\<exists>v. toString numStr dateStr (typedValue l) = (Inr v :: 'e error + string) \<and>
           toRDF numStr dateStr l =
             (Inr (RDFDM_literal v (toRDF_languageOrDatatype l)) :: 'e error + rdfTerm))) \<and>
   (language l = Some g \<and> g \<noteq> [] \<longrightarrow> toRDF_languageOrDatatype l = Language g) \<and>
   ((language l = None \<or> language l = Some []) \<and> dataType l = Some d \<longrightarrow>
      toRDF_languageOrDatatype l = Datatype d) \<and>
   (\<exists>l' t. NonLexicalLiteral_constructor categorize tv (Some ''abc'') (Some d') lang =
        (Inr l' :: 'e error + literalTerm) \<and>
      toRDF numStr dateStr l' = (Inr t :: 'e error + rdfTerm) \<and> lexical t = ''abc'')"
  by (cases "typedValue l")
    (auto simp: toRDF_def toRDF_value_def toRDF_languageOrDatatype_def
      NonLexicalLiteral_constructor_def Literal_constructor_def)

theorem toRDF_wire_form_witness:
  "\<forall>numStr dateStr.
     toRDF numStr dateStr
         \<lparr>cls = NumericLiteral, typedValue = JSNumber (Finite 5), strValue = Some ''05'',
          dataType = Some (NamedNode ''http://www.w3.org/2001/XMLSchema#integer''),
          language = None, category = ''integer''\<rparr> =
       (Inr (RDFDM_literal ''05''
          (Datatype (NamedNode ''http://www.w3.org/2001/XMLSchema#integer'')))
        :: Variable error + rdfTerm) \<and>
     toRDF numStr dateStr
         \<lparr>cls = BooleanLiteral, typedValue = JSBoolean True, strValue = None,
          dataType = Some (NamedNode ''http://www.w3.org/2001/XMLSchema#boolean''),
          language = Some [], category = ''boolean''\<rparr> =
       (Inr (RDFDM_literal ''true''
          (Datatype (NamedNode ''http://www.w3.org/2001/XMLSchema#boolean'')))
        :: Variable error + rdfTerm) \<and>
     toRDF_languageOrDatatype
         \<lparr>cls = PlainLiteral, typedValue = JSString ''chat'', strValue = Some ''chat'',
          dataType =
            Some (NamedNode ''http://www.w3.org/1999/02/22-rdf-syntax-ns#langString''),
          language = Some ''fr'', category = ''plain''\<rparr> = Language ''fr''"
proof (intro allI)
  fix numStr dateStr :: "number \<Rightarrow> string"
  let ?five = "\<lparr>cls = NumericLiteral, typedValue = JSNumber (Finite 5),
          strValue = Some ''05'',
          dataType = Some (NamedNode ''http://www.w3.org/2001/XMLSchema#integer''),
          language = None, category = ''integer''\<rparr>"
  let ?true = "\<lparr>cls = BooleanLiteral, typedValue = JSBoolean True, strValue = None,
          dataType = Some (NamedNode ''http://www.w3.org/2001/XMLSchema#boolean''),
          language = Some [], category = ''boolean''\<rparr>"
  let ?chat = "\<lparr>cls = PlainLiteral, typedValue = JSString ''chat'',
          strValue = Some ''chat'',
          dataType =
            Some (NamedNode ''http://www.w3.org/1999/02/22-rdf-syntax-ns#langString''),
          language = Some ''fr'', category = ''plain''\<rparr>"
  have five:
    "toRDF numStr dateStr ?five =
       (Inr (RDFDM_literal ''05''
          (Datatype (NamedNode ''http://www.w3.org/2001/XMLSchema#integer'')))
        :: Variable error + rdfTerm)"
    using toRDF_wire_form [where ?'e = Variable and l = ?five and s = "''05''"
        and numStr = numStr and dateStr = dateStr and g = "[]"
        and d = "NamedNode ''http://www.w3.org/2001/XMLSchema#integer''" and categorize = "\<lambda>d. ''integer''" and tv = JSUndefined
        and d' = "NamedNode ''http://www.w3.org/2001/XMLSchema#integer''" and lang = None]
    by simp
  have true:
    "toRDF numStr dateStr ?true =
       (Inr (RDFDM_literal ''true''
          (Datatype (NamedNode ''http://www.w3.org/2001/XMLSchema#boolean'')))
        :: Variable error + rdfTerm)"
    using toRDF_wire_form [where ?'e = Variable and l = ?true and s = "[]"
        and numStr = numStr and dateStr = dateStr and g = "[]"
        and d = "NamedNode ''http://www.w3.org/2001/XMLSchema#boolean''" and categorize = "\<lambda>d. ''integer''" and tv = JSUndefined
        and d' = "NamedNode ''http://www.w3.org/2001/XMLSchema#integer''" and lang = None]
    by simp
  have chat: "toRDF_languageOrDatatype ?chat = Language ''fr''"
    using toRDF_wire_form [where ?'e = Variable and l = ?chat and s = "''chat''"
        and numStr = numStr and dateStr = dateStr and g = "''fr''"
        and d = "NamedNode ''http://www.w3.org/1999/02/22-rdf-syntax-ns#langString''" and categorize = "\<lambda>d. ''integer''" and tv = JSUndefined
        and d' = "NamedNode ''http://www.w3.org/2001/XMLSchema#integer''" and lang = None]
    by simp
  from five true chat show
    "toRDF numStr dateStr ?five =
       (Inr (RDFDM_literal ''05''
          (Datatype (NamedNode ''http://www.w3.org/2001/XMLSchema#integer'')))
        :: Variable error + rdfTerm) \<and>
     toRDF numStr dateStr ?true =
       (Inr (RDFDM_literal ''true''
          (Datatype (NamedNode ''http://www.w3.org/2001/XMLSchema#boolean'')))
        :: Variable error + rdfTerm) \<and>
     toRDF_languageOrDatatype ?chat = Language ''fr''"
    by simp
qed

text \<open>
  C7 as stated fails. A literal with the language tag \<open>"fr"\<close> and the datatype
  \<open>xsd:string\<close> is rendered by \<open>RDFDM.literal("chat", "fr")\<close>: the datatype is not
  passed through. A \<open>NonLexicalLiteral\<close> whose lexical form is present and is the
  empty string is not rendered with that form, and one with no lexical form has no
  typed value to render: for both \<open>toRDF\<close> reads \<open>toString\<close> of \<open>undefined\<close>
  and produces no term.
\<close>

theorem toRDF_datatype_dropped_counterexample:
  "\<forall>numStr dateStr.
     toRDF numStr dateStr
         \<lparr>cls = PlainLiteral, typedValue = JSString ''chat'', strValue = Some ''chat'',
          dataType = Some (NamedNode ''http://www.w3.org/2001/XMLSchema#string''),
          language = Some ''fr'', category = ''plain''\<rparr> =
       (Inr (RDFDM_literal ''chat'' (Language ''fr'')) :: Variable error + rdfTerm) \<and>
     toRDF numStr dateStr
         \<lparr>cls = NonLexicalLiteral, typedValue = JSUndefined, strValue = Some [],
          dataType = Some (NamedNode ''http://www.w3.org/2001/XMLSchema#boolean''),
          language = None, category = ''untyped''\<rparr> =
       (Inl (TypeError (PropertyOfUndefined ''toString'')) :: Variable error + rdfTerm) \<and>
     toRDF numStr dateStr
         \<lparr>cls = NonLexicalLiteral, typedValue = JSUndefined, strValue = None,
          dataType = Some (NamedNode ''http://www.w3.org/2001/XMLSchema#boolean''),
          language = None, category = ''untyped''\<rparr> =
       (Inl (TypeError (PropertyOfUndefined ''toString'')) :: Variable error + rdfTerm)"
  by (simp add: toRDF_def toRDF_value_def toRDF_languageOrDatatype_def)

text \<open>
  C10 at a concrete input: the literal \<open>""^^xsd:integer\<close>, whose lexical form is
  present, is the empty string and is no integer, so that it is a
  \<open>NonLexicalLiteral\<close>. The claim has \<open>toRDF\<close> give an output lexical value; the
  code takes the empty form for an absent one (\<open>this.strValue || ...\<close>), reads
  \<open>toString\<close> of the typed value \<open>undefined\<close> and throws. The same literal with
  the lexical form \<open>"abc"\<close> is rendered with its form.
\<close>

theorem toRDF_empty_lexical_throws:
  "\<forall>categorize numStr dateStr.
     NonLexicalLiteral_constructor categorize (JSString []) (Some [])
         (Some (NamedNode ''http://www.w3.org/2001/XMLSchema#integer'')) None =
       (Inr \<lparr>cls = NonLexicalLiteral, typedValue = JSUndefined, strValue = Some [],
            dataType = Some (NamedNode ''http://www.w3.org/2001/XMLSchema#integer''),
            language = None, category = ''untyped''\<rparr> :: Variable error + literalTerm) \<and>
     toRDF numStr dateStr
         \<lparr>cls = NonLexicalLiteral, typedValue = JSUndefined, strValue = Some [],
          dataType = Some (NamedNode ''http://www.w3.org/2001/XMLSchema#integer''),
          language = None, category = ''untyped''\<rparr> =
       (Inl (TypeError (PropertyOfUndefined ''toString'')) :: Variable error + rdfTerm) \<and>
     toRDF numStr dateStr
         \<lparr>cls = NonLexicalLiteral, typedValue = JSUndefined, strValue = Some ''abc'',
          dataType = Some (NamedNode ''http://www.w3.org/2001/XMLSchema#integer''),
          language = None, category = ''untyped''\<rparr> =
       (Inr (RDFDM_literal ''abc''
          (Datatype (NamedNode ''http://www.w3.org/2001/XMLSchema#integer'')))
        :: Variable error + rdfTerm)"
  by (simp add: NonLexicalLiteral_constructor_def Literal_constructor_def toRDF_def
      toRDF_value_def toRDF_languageOrDatatype_def)


section \<open>Application of an overloaded operator\<close>

text \<open>
  An operator that the constructor returned has no \<open>_overloadMap\<close>: every
  application reads \<open>get\<close> of \<open>undefined\<close>, whatever the arguments and the map
  given to the constructor.
\<close>

lemma OverloadedOperator_apply_constructed:
  "OverloadedOperator_constructor op ar as m = Inr opr \<Longrightarrow>
     OverloadedOperator_apply opr targs = Inl (TypeError (PropertyOfUndefined ''get''))"
  by (auto simp: OverloadedOperator_constructor_def OverloadedOperator_apply_def
      monomorph_def split: if_splits)

text \<open>
  C3 at a concrete input: \<open>+\<close> constructed with an entry for
  \<open>(integer, integer)\<close> and applied to two integer literals. The claim has the
  entry's computation called; the code throws the \<open>TypeError\<close> of
  \<open>this._overloadMap.get\<close>, since the constructor assigns \<open>overloadMap\<close> and
  \<open>_monomorph\<close> reads \<open>_overloadMap\<close>. Applied to an integer and a string, for
  which the map has no entry, it throws the same \<open>TypeError\<close> and not
  \<open>InvalidArgumentTypes\<close>.
\<close>

theorem OverloadedOperator_apply_unassigned_map:
  "OverloadedOperator_constructor ''+'' (Finite 2) [Variable ''a'', Variable ''b'']
       [[''integer'', ''integer''] \<mapsto> (\<lambda>as. Inr (hd as))] =
     Inr \<lparr>operator = ''+'', arity = Finite 2, args = [Variable ''a'', Variable ''b''],
          overloadMap = [[''integer'', ''integer''] \<mapsto> (\<lambda>as. Inr (hd as))],
          priv_overloadMap = None\<rparr> \<and>
   OverloadedOperator_apply
       \<lparr>operator = ''+'', arity = Finite 2, args = [Variable ''a'', Variable ''b''],
        overloadMap = [[''integer'', ''integer''] \<mapsto> (\<lambda>as. Inr (hd as))],
        priv_overloadMap = None\<rparr>
       [Lit \<lparr>cls = NumericLiteral, typedValue = JSNumber (Finite 1), strValue = Some ''1'',
          dataType = Some (NamedNode ''http://www.w3.org/2001/XMLSchema#integer''),
          language = None, category = ''integer''\<rparr>,
        Lit \<lparr>cls = NumericLiteral, typedValue = JSNumber (Finite 2), strValue = Some ''2'',
          dataType = Some (NamedNode ''http://www.w3.org/2001/XMLSchema#integer''),
          language = None, category = ''integer''\<rparr>] =
     Inl (TypeError (PropertyOfUndefined ''get'')) \<and>
   OverloadedOperator_apply
       \<lparr>operator = ''+'', arity = Finite 2, args = [Variable ''a'', Variable ''b''],
        overloadMap = [[''integer'', ''integer''] \<mapsto> (\<lambda>as. Inr (hd as))],
        priv_overloadMap = None\<rparr>
       [Lit \<lparr>cls = NumericLiteral, typedValue = JSNumber (Finite 1), strValue = Some ''1'',
          dataType = Some (NamedNode ''http://www.w3.org/2001/XMLSchema#integer''),
          language = None, category = ''integer''\<rparr>,
        Lit \<lparr>cls = StringLiteral, typedValue = JSString ''a'', strValue = Some ''a'',
          dataType = Some (NamedNode ''http://www.w3.org/2001/XMLSchema#string''),
          language = None, category = ''string''\<rparr>] =
     Inl (TypeError (PropertyOfUndefined ''get''))"
  by (simp add: OverloadedOperator_constructor_def OverloadedOperator_apply_def
      monomorph_def length_differs_def)

section \<open>A wrong number of evaluated arguments\<close>

text \<open>
  C9, as the code has it. \<open>SimpleOperator.apply\<close> compares the arguments' types
  with the declared signature and never reads \<open>arity\<close>: a number of evaluated
  arguments that differs from the length of the signature fails with
  \<open>InvalidArgumentTypes\<close>, which is not \<open>InvalidArity\<close>; so does a number that
  differs from the arity when the signature has as many types as the arity says; and
  the result of \<open>apply\<close> is the same whatever the \<open>arity\<close> field holds.
\<close>

theorem SimpleOperator_apply_wrong_count:
  "(length as \<noteq> length (types opr) \<longrightarrow>
      SimpleOperator_apply opr as = Inl (InvalidArgumentTypes as (operator opr))) \<and>
   (arity opr = Finite (of_nat (length (types opr))) \<and>
    arity opr \<noteq> Finite (of_nat (length as)) \<longrightarrow>
      SimpleOperator_apply opr as = Inl (InvalidArgumentTypes as (operator opr)) \<and>
      (\<forall>xs name. SimpleOperator_apply opr as \<noteq> Inl (InvalidArity xs name))) \<and>
   SimpleOperator_apply (opr\<lparr>arity := ar\<rparr>) as = SimpleOperator_apply opr as"
  by (auto simp: SimpleOperator_apply_def isValidTypes_def)

theorem SimpleOperator_apply_wrong_count_witness:
  "arity \<lparr>operator = ''not'', arity = Finite 1, args = [Variable ''x''],
          types = [''boolean''], apply_fn = (\<lambda>as. Inr (hd as))\<rparr> \<noteq>
     Finite (of_nat (length ([] :: termExpression list))) \<and>
   SimpleOperator_apply
       \<lparr>operator = ''not'', arity = Finite 1, args = [Variable ''x''],
        types = [''boolean''], apply_fn = (\<lambda>as. Inr (hd as))\<rparr> [] =
     Inl (InvalidArgumentTypes [] ''not'')"
  using SimpleOperator_apply_wrong_count [where
      opr = "\<lparr>operator = ''not'', arity = Finite 1, args = [Variable ''x''],
        types = [''boolean''], apply_fn = (\<lambda>as. Inr (hd as))\<rparr>" and
      as = "[]" and ar = "Finite 1"]
  by simp

text \<open>
  C9 as stated fails: nothing ties the length of \<open>types\<close> to \<open>arity\<close>. An operator
  of arity 1 declared with a signature of two types is constructed, and applied to two
  arguments of these types it calls the computation and returns its result.
\<close>

theorem SimpleOperator_apply_wrong_count_counterexample:
  "SimpleOperator_constructor ''f'' (Finite 1) [Variable ''x'']
       [''integer'', ''integer''] (Inr \<circ> hd) =
     Inr \<lparr>operator = ''f'', arity = Finite 1, args = [Variable ''x''],
          types = [''integer'', ''integer''], apply_fn = Inr \<circ> hd\<rparr> \<and>
   SimpleOperator_apply
       \<lparr>operator = ''f'', arity = Finite 1, args = [Variable ''x''],
        types = [''integer'', ''integer''], apply_fn = Inr \<circ> hd\<rparr>
       [Lit \<lparr>cls = NumericLiteral, typedValue = JSNumber (Finite 1), strValue = Some ''1'',
          dataType = Some (NamedNode ''http://www.w3.org/2001/XMLSchema#integer''),
          language = None, category = ''integer''\<rparr>,
        Lit \<lparr>cls = NumericLiteral, typedValue = JSNumber (Finite 2), strValue = Some ''2'',
          dataType = Some (NamedNode ''http://www.w3.org/2001/XMLSchema#integer''),
          language = None, category = ''integer''\<rparr>] =
     Inr (Lit \<lparr>cls = NumericLiteral, typedValue = JSNumber (Finite 1),
          strValue = Some ''1'',
          dataType = Some (NamedNode ''http://www.w3.org/2001/XMLSchema#integer''),
          language = None, category = ''integer''\<rparr>)"
  by (simp add: SimpleOperator_constructor_def SimpleOperator_apply_def isValidTypes_def
      length_differs_def)

end
